theory Spec2Isabelle
  imports Main
begin

section \<open>Python values, exceptions and results\<close>

text \<open>
  The module \<open>demo2.py\<close> is dynamically typed: the two chains hand back whatever the
  language model and the parsers produced. The values below are the ones the source can
  tell apart: the JSON-shaped values (\<open>None\<close>, booleans, integers, strings, lists,
  dictionaries with string keys), tuples, and retrieved documents, which are objects with
  the two attributes \<open>page_content\<close> (a string) and \<open>metadata\<close> (a dictionary).
  A dictionary is an association list read with \<open>map_of\<close>; one element of a
  \<open>string\<close> stands for one Python character. Floats are left out.
\<close>

datatype pyval =
    PNone
  | PBool bool
  | PInt int
  | PStr string
  | PList "pyval list"
  | PTuple "pyval list"
  | PDict "(string \<times> pyval) list"
  | PDoc string "(string \<times> pyval) list"

text \<open>
  Exceptions are instances of Python's class \<open>Exception\<close>. \<open>Exc m\<close> is an exception
  raised by a collaborator (\<open>m\<close> names it); the others are the ones the interpreter,
  the module itself or pydantic raise: \<open>AttributeError t a\<close> for reading attribute
  \<open>a\<close> of a value of type \<open>t\<close>, \<open>TypeError t\<close> for iterating over a value of type
  \<open>t\<close>, \<open>ValidationError fs\<close> for the fields \<open>fs\<close> a pydantic model rejected.
\<close>

datatype pyexc =
    Exc string
  | RuntimeError string
  | AttributeError string string
  | TypeError string
  | ValidationError "string list"

datatype 'a result = Returned 'a | Raised pyexc

fun type_name :: "pyval \<Rightarrow> string" where
  "type_name PNone = ''NoneType''"
| "type_name (PBool b) = ''bool''"
| "type_name (PInt n) = ''int''"
| "type_name (PStr s) = ''str''"
| "type_name (PList xs) = ''list''"
| "type_name (PTuple xs) = ''tuple''"
| "type_name (PDict kvs) = ''dict''"
| "type_name (PDoc c m) = ''Document''"

text \<open>Truth value of an object, as \<open>if not sources\<close> tests it.\<close>

fun truthy :: "pyval \<Rightarrow> bool" where
  "truthy PNone = False"
| "truthy (PBool b) = b"
| "truthy (PInt n) = (n \<noteq> 0)"
| "truthy (PStr s) = (s \<noteq> [])"
| "truthy (PList xs) = (xs \<noteq> [])"
| "truthy (PTuple xs) = (xs \<noteq> [])"
| "truthy (PDict kvs) = (kvs \<noteq> [])"
| "truthy (PDoc c m) = True"

text \<open>
  The elements a \<open>for\<close> loop visits: the items of a list or tuple, the characters of a
  string, the keys of a dictionary, the (name, value) pairs of a document's fields; the
  other values are not iterable.
\<close>

fun py_iter :: "pyval \<Rightarrow> pyval list result" where
  "py_iter (PList xs) = Returned xs"
| "py_iter (PTuple xs) = Returned xs"
| "py_iter (PStr s) = Returned (map (\<lambda>c. PStr [c]) s)"
| "py_iter (PDict kvs) = Returned (map (\<lambda>kv. PStr (fst kv)) kvs)"
| "py_iter (PDoc c m) =
     Returned [PTuple [PStr ''page_content'', PStr c], PTuple [PStr ''metadata'', PDict m]]"
| "py_iter v = Raised (TypeError (type_name v))"

text \<open>\<open>d.get(key, default)\<close>: only a dictionary has the method.\<close>

fun py_get :: "pyval \<Rightarrow> string \<Rightarrow> pyval \<Rightarrow> pyval result" where
  "py_get (PDict kvs) key dflt =
     Returned (case map_of kvs key of None \<Rightarrow> dflt | Some v \<Rightarrow> v)"
| "py_get v key dflt = Raised (AttributeError (type_name v) ''get'')"

text \<open>
  \<open>str(v)\<close>: the string itself when \<open>v\<close> is a string. The text of any other object is
  made by that object's class; the model takes it as the parameter \<open>render\<close>, so that
  every result below holds whatever that text is.
\<close>

definition py_str :: "(pyval \<Rightarrow> string) \<Rightarrow> pyval \<Rightarrow> string" where
  "py_str render v = (case v of PStr s \<Rightarrow> s | _ \<Rightarrow> render v)"

section \<open>Response Assembler: \<open>format_sources_optimized\<close>\<close>

text \<open>
  The body of the loop: one document becomes the dictionary
  \<open>{"source": ..., "preview": ...}\<close>; a value without the attribute
  \<open>page_content\<close> raises.
\<close>

fun format_doc :: "pyval \<Rightarrow> pyval result" where
  "format_doc (PDoc content metadata) =
     (let preview = take 200 content;
          preview = (if length content > 200 then preview @ ''...'' else preview)
      in Returned (PDict
           [(''source'', (case map_of metadata ''source'' of
                            None \<Rightarrow> PStr ''[No source]'' | Some v \<Rightarrow> v)),
            (''preview'', PStr preview)]))"
| "format_doc v = Raised (AttributeError (type_name v) ''page_content'')"

text \<open>The loop \<open>for doc in sources\<close>, appending to \<open>formatted_sources\<close>.\<close>

fun format_loop :: "pyval list \<Rightarrow> pyval list \<Rightarrow> pyval list result" where
  "format_loop [] formatted_sources = Returned formatted_sources"
| "format_loop (doc # rest) formatted_sources =
     (case format_doc doc of
        Raised e \<Rightarrow> Raised e
      | Returned d \<Rightarrow> format_loop rest (formatted_sources @ [d]))"

text \<open>The result is \<open>None\<close> (here \<open>None\<close> of the option type) or the list of dictionaries.\<close>

definition format_sources_optimized :: "pyval \<Rightarrow> pyval list option result" where
  "format_sources_optimized sources =
     (if \<not> truthy sources then Returned None
      else case py_iter sources of
             Raised e \<Rightarrow> Raised e
           | Returned docs \<Rightarrow>
               (case format_loop docs [] of
                  Raised e \<Rightarrow> Raised e
                | Returned formatted_sources \<Rightarrow> Returned (Some formatted_sources)))"

section \<open>Module state and the models of the HTTP interface\<close>

text \<open>
  The module keeps its collaborators in global variables, all \<open>None\<close> when the module
  is loaded. A component is an opaque handle; \<open>None\<close> stands for Python's \<open>None\<close> (or
  any other object that \<open>not\<close> takes for false). A chain is used through \<open>invoke\<close>
  only: it maps the input dictionary to what the call returns or raises. The executor
  is recorded by its \<open>max_workers\<close>.
\<close>

datatype component = Component string

type_synonym chain = "pyval \<Rightarrow> pyval result"

record globals =
  embeddings :: "component option"
  weaviate_client :: "component option"
  llm :: "component option"
  reranker :: "component option"
  retriever :: "component option"
  qa_chain :: "chain option"
  preprocessing_chain :: "chain option"
  executor :: "nat option"

definition initial_globals :: globals where
  "initial_globals =
     \<lparr>embeddings = None, weaviate_client = None, llm = None, reranker = None,
      retriever = None, qa_chain = None, preprocessing_chain = None, executor = None\<rparr>"

text \<open>
  \<open>RAGQueryRequest\<close> as FastAPI hands it to the handler: validated, so \<open>question\<close> is
  a string and \<open>chat_history\<close> is \<open>None\<close> or a list.
\<close>

record RAGQueryRequest =
  question :: string
  chat_history :: "pyval list option"

record RAGQueryResponse =
  classification :: string
  rewritten_question :: string
  answer :: string
  sources :: "pyval list option"

text \<open>
  Building a \<open>RAGQueryResponse\<close> validates the three \<open>str\<close> fields: a value that is
  not a string is rejected (pydantic 2 does not convert to \<open>str\<close>), and the error lists
  the rejected fields. \<open>sources\<close> is \<open>Optional[List[Any]]\<close>, which the value that
  \<open>format_sources_optimized\<close> returns always satisfies.
\<close>

fun is_str :: "pyval \<Rightarrow> bool" where
  "is_str (PStr s) = True"
| "is_str v = False"

definition rejected :: "string \<Rightarrow> pyval \<Rightarrow> string list" where
  "rejected field v = (if is_str v then [] else [field])"

definition RAGQueryResponse_init ::
  "pyval \<Rightarrow> pyval \<Rightarrow> pyval \<Rightarrow> pyval list option \<Rightarrow> RAGQueryResponse result" where
  "RAGQueryResponse_init c r a s =
     (case (c, r, a) of
        (PStr c', PStr r', PStr a') \<Rightarrow>
          Returned \<lparr>classification = c', rewritten_question = r', answer = a', sources = s\<rparr>
      | _ \<Rightarrow>
          Raised (ValidationError
            (rejected ''classification'' c @ rejected ''rewritten_question'' r
             @ rejected ''answer'' a)))"

text \<open>
  An \<open>HTTPException\<close> has a status code and a detail. The detail is a literal text or an
  f-string: a literal prefix followed by the text of an exception, which is kept as the
  exception itself.
\<close>

datatype detail = Text string | FText string pyexc

datatype HTTPException = HTTPException nat detail

text \<open>What leaves the \<open>try\<close> block of the handler: an \<open>HTTPException\<close> or anything else.\<close>

datatype failure = HTTPFailure HTTPException | OtherFailure pyexc

text \<open>A call handed to the worker pool: the function and its two arguments.\<close>

datatype task = Task string string "pyval list"

section \<open>The two tasks\<close>

text \<open>
  The dictionary \<open>{"input": question, "chat_history": chat_history}\<close> that both
  chains are invoked with. (A variable whose name is also a field of a record carries a
  prime.)
\<close>

definition chain_input :: "string \<Rightarrow> pyval list \<Rightarrow> pyval" where
  "chain_input question' chat_history' =
     PDict [(''input'', PStr question'), (''chat_history'', PList chat_history')]"

text \<open>\<open>chain.invoke(x)\<close> on a global that may still be \<open>None\<close>.\<close>

definition invoke :: "chain option \<Rightarrow> pyval \<Rightarrow> pyval result" where
  "invoke c x =
     (case c of
        None \<Rightarrow> Raised (AttributeError ''NoneType'' ''invoke'')
      | Some f \<Rightarrow> f x)"

definition run_preprocessing :: "globals \<Rightarrow> string \<Rightarrow> pyval list \<Rightarrow> pyval result" where
  "run_preprocessing g question' chat_history' =
     (case invoke (preprocessing_chain g) (chain_input question' chat_history') of
        Returned v \<Rightarrow> Returned v
      | Raised e \<Rightarrow>
          Returned (PDict [(''classification'', PStr ''unknown''),
                           (''rewritten_question'', PStr question')]))"

definition run_rag_pipeline :: "globals \<Rightarrow> string \<Rightarrow> pyval list \<Rightarrow> pyval result" where
  "run_rag_pipeline g question' chat_history' =
     invoke (qa_chain g) (chain_input question' chat_history')"

section \<open>The query handler \<open>rag_query\<close>\<close>

text \<open>
  \<open>asyncio.gather(..., return_exceptions=True)\<close> hands each task's outcome back as a
  value; \<open>isinstance(x, Exception)\<close> then tells \<open>Raised\<close> from \<open>Returned\<close>. (No
  value of \<open>pyval\<close> is an exception object: a chain does not return one as its result.)

  Lines 167 to 173: the classification and the rewritten question.
\<close>

definition resolve_preprocessing :: "string \<Rightarrow> pyval result \<Rightarrow> (pyval \<times> pyval) result" where
  "resolve_preprocessing question' preprocessing_result =
     (case preprocessing_result of
        Raised e \<Rightarrow> Returned (PStr ''unknown'', PStr question')
      | Returned d \<Rightarrow>
          (case py_get d ''classification'' (PStr ''unknown'') of
             Raised e \<Rightarrow> Raised e
           | Returned classification' \<Rightarrow>
               (case py_get d ''rewritten_question'' (PStr question') of
                  Raised e \<Rightarrow> Raised e
                | Returned rewritten_question' \<Rightarrow>
                    Returned (classification', rewritten_question'))))"

text \<open>Lines 178 to 183: the answer and the raw sources.\<close>

definition extract_answer :: "(pyval \<Rightarrow> string) \<Rightarrow> pyval \<Rightarrow> pyval \<times> pyval" where
  "extract_answer render rag_result =
     (case rag_result of
        PDict kvs \<Rightarrow>
          ((case map_of kvs ''answer'' of
              None \<Rightarrow> PStr (py_str render rag_result) | Some v \<Rightarrow> v),
           (case map_of kvs ''context'' of None \<Rightarrow> PNone | Some v \<Rightarrow> v))
      | _ \<Rightarrow> (PStr (py_str render rag_result), PNone))"

text \<open>The \<open>try\<close> block from the \<open>gather\<close> on, given the two outcomes.\<close>

definition rag_query_body ::
  "(pyval \<Rightarrow> string) \<Rightarrow> string \<Rightarrow> pyval result \<Rightarrow> pyval result
     \<Rightarrow> failure + RAGQueryResponse" where
  "rag_query_body render question' preprocessing_result rag_result =
     (case resolve_preprocessing question' preprocessing_result of
        Raised e \<Rightarrow> Inl (OtherFailure e)
      | Returned (classification', rewritten_question') \<Rightarrow>
          (case rag_result of
             Raised e \<Rightarrow>
               Inl (HTTPFailure (HTTPException 500 (FText ''RAG pipeline failed: '' e)))
           | Returned r \<Rightarrow>
               (case extract_answer render r of
                  (answer', sources') \<Rightarrow>
                    (case format_sources_optimized sources' of
                       Raised e \<Rightarrow> Inl (OtherFailure e)
                     | Returned formatted_sources \<Rightarrow>
                         (case RAGQueryResponse_init classification' rewritten_question'
                                 answer' formatted_sources of
                            Raised e \<Rightarrow> Inl (OtherFailure e)
                          | Returned response \<Rightarrow> Inr response)))))"

text \<open>\<open>request.chat_history or []\<close>.\<close>

definition history_of :: "RAGQueryRequest \<Rightarrow> pyval list" where
  "history_of request = (case chat_history request of None \<Rightarrow> [] | Some h \<Rightarrow> h)"

text \<open>
  The handler returns the response or the \<open>HTTPException\<close> it raises, together with the
  tasks it has handed to the worker pool, in the order of submission.
\<close>

definition rag_query ::
  "(pyval \<Rightarrow> string) \<Rightarrow> globals \<Rightarrow> RAGQueryRequest
     \<Rightarrow> (HTTPException + RAGQueryResponse) \<times> task list" where
  "rag_query render g request =
     (if Option.is_none (qa_chain g) \<or> Option.is_none (preprocessing_chain g)
      then (Inl (HTTPException 500 (Text ''RAG pipeline not initialized.'')), [])
      else
        (let chat_history' = history_of request;
             submitted = [Task ''run_preprocessing'' (question request) chat_history',
                          Task ''run_rag_pipeline'' (question request) chat_history'];
             preprocessing_result = run_preprocessing g (question request) chat_history';
             rag_result = run_rag_pipeline g (question request) chat_history'
         in ((case rag_query_body render (question request) preprocessing_result rag_result of
                Inl (HTTPFailure h) \<Rightarrow> Inl h
              | Inl (OtherFailure e) \<Rightarrow>
                  Inl (HTTPException 500 (FText ''Error during RAG pipeline: '' e))
              | Inr response \<Rightarrow> Inr response),
             submitted)))"

text \<open>The two tasks of a request, in the order in which the handler submits them.\<close>

definition submitted_tasks :: "RAGQueryRequest \<Rightarrow> task list" where
  "submitted_tasks request =
     [Task ''run_preprocessing'' (question request) (history_of request),
      Task ''run_rag_pipeline'' (question request) (history_of request)]"

fun is_dict :: "pyval \<Rightarrow> bool" where
  "is_dict (PDict kvs) = True"
| "is_dict v = False"

text \<open>
  The preview of one document, given as its content and its metadata: what the
  Response Assembler is to make of it.
\<close>

definition source_preview :: "string \<times> (string \<times> pyval) list \<Rightarrow> pyval" where
  "source_preview d =
     PDict [(''source'', (case map_of (snd d) ''source'' of
                            None \<Rightarrow> PStr ''[No source]'' | Some v \<Rightarrow> v)),
            (''preview'', PStr (if length (fst d) > 200 then take 200 (fst d) @ ''...''
                                else fst d))]"

section \<open>Startup: \<open>lifespan\<close>\<close>

text \<open>
  What the startup code calls, each with what the call returns or raises. The
  composition \<open>preprocessing_prompt | llm | parser\<close> and the constructor
  \<open>AdvancedLawRetriever\<close> give an object when they return; the factory functions may
  return \<open>None\<close>.
\<close>

record collaborators =
  get_huggingface_embeddings :: "component option result"
  connect_to_weaviate :: "component option result"
  GOOGLE_API_KEY :: "string option"
  has_get_google_llm :: bool
  get_google_llm :: "string \<Rightarrow> component option result"
  get_reranker_compressor :: "component option result"
  AdvancedLawRetriever ::
    "component option \<Rightarrow> component option \<Rightarrow> component option \<Rightarrow> component option
       \<Rightarrow> component result"
  create_qa_chain ::
    "component option \<Rightarrow> component option \<Rightarrow> component option \<Rightarrow> chain option result"
  compose_preprocessing_chain :: "component option \<Rightarrow> chain result"

text \<open>
  The part of \<open>lifespan\<close> before \<open>yield\<close>. The result is \<open>Returned ()\<close> when the
  \<open>yield\<close> is reached, that is when the application starts to serve, and the exception
  that ends the startup otherwise; the second component is the module state left behind.
\<close>

definition lifespan :: "collaborators \<Rightarrow> globals \<Rightarrow> unit result \<times> globals" where
  "lifespan env g0 =
     (let g1 = g0\<lparr>executor := Some 4\<rparr> in
      case get_huggingface_embeddings env of
        Raised e \<Rightarrow> (Raised e, g1)
      | Returned emb \<Rightarrow>
     (let g2 = g1\<lparr>embeddings := emb\<rparr> in
      if Option.is_none (embeddings g2)
      then (Raised (RuntimeError ''Failed to load embedding model.''), g2)
      else
      case connect_to_weaviate env of
        Raised e \<Rightarrow> (Raised e, g2)
      | Returned client \<Rightarrow>
     (let g3 = g2\<lparr>weaviate_client := client\<rparr> in
      if Option.is_none (weaviate_client g3)
      then (Raised (RuntimeError ''Failed to connect to Weaviate.''), g3)
      else
      case (case GOOGLE_API_KEY env of
              None \<Rightarrow> Returned g3
            | Some google_api_key \<Rightarrow>
                if has_get_google_llm env \<and> google_api_key \<noteq> []
                then (case get_google_llm env google_api_key of
                        Raised e \<Rightarrow> Raised e
                      | Returned l \<Rightarrow> Returned (g3\<lparr>llm := l\<rparr>))
                else Returned g3) of
        Raised e \<Rightarrow> (Raised e, g3)
      | Returned g4 \<Rightarrow>
      if Option.is_none (llm g4)
      then (Raised (RuntimeError ''Failed to load LLM. Please set GOOGLE_API_KEY.''), g4)
      else
      case get_reranker_compressor env of
        Raised e \<Rightarrow> (Raised e, g4)
      | Returned rr \<Rightarrow>
     (let g5 = g4\<lparr>reranker := rr\<rparr> in
      if Option.is_none (reranker g5)
      then (Raised (RuntimeError ''Failed to load reranker.''), g5)
      else
      case AdvancedLawRetriever env (weaviate_client g5) (llm g5) (reranker g5)
             (embeddings g5) of
        Raised e \<Rightarrow> (Raised e, g5)
      | Returned rt \<Rightarrow>
     (let g6 = g5\<lparr>retriever := Some rt\<rparr> in
      case create_qa_chain env (llm g6) (retriever g6) (llm g6) of
        Raised e \<Rightarrow> (Raised e, g6)
      | Returned qa \<Rightarrow>
     (let g7 = g6\<lparr>qa_chain := qa\<rparr> in
      case compose_preprocessing_chain env (llm g7) of
        Raised e \<Rightarrow> (Raised e, g7)
      | Returned pc \<Rightarrow> (Returned (), g7\<lparr>preprocessing_chain := Some pc\<rparr>)))))))"

text \<open>
  The registry of the seven components is complete when none of them is \<open>None\<close>.
\<close>

definition fully_initialized :: "globals \<Rightarrow> bool" where
  "fully_initialized g =
     (\<not> Option.is_none (embeddings g) \<and> \<not> Option.is_none (weaviate_client g)
      \<and> \<not> Option.is_none (llm g) \<and> \<not> Option.is_none (reranker g)
      \<and> \<not> Option.is_none (retriever g) \<and> \<not> Option.is_none (qa_chain g)
      \<and> \<not> Option.is_none (preprocessing_chain g))"

subsection \<open>The startup steps, one by one\<close>

text \<open>
  A second description of the startup, to compare \<open>lifespan\<close> with: the list of the
  seven steps in their order, each with the error that ends the startup there. The
  first four steps fail when the call raises and, with a \<open>RuntimeError\<close> that names
  the step, when it returns \<open>None\<close>; the last three fail when the call raises, and
  only then. Each step is given the results of the steps before it.
\<close>

definition null_check :: "string \<Rightarrow> 'a option result \<Rightarrow> pyexc option" where
  "null_check msg r =
     (case r of
        Raised e \<Rightarrow> Some e
      | Returned None \<Rightarrow> Some (RuntimeError msg)
      | Returned (Some x) \<Rightarrow> None)"

definition throws :: "'a result \<Rightarrow> pyexc option" where
  "throws r = (case r of Raised e \<Rightarrow> Some e | Returned x \<Rightarrow> None)"

definition value_of :: "'a option result \<Rightarrow> 'a option" where
  "value_of r = (case r of Raised e \<Rightarrow> None | Returned x \<Rightarrow> x)"

definition object_of :: "'a result \<Rightarrow> 'a option" where
  "object_of r = (case r of Raised e \<Rightarrow> None | Returned x \<Rightarrow> Some x)"

text \<open>
  The language model is requested only when the module has \<open>get_google_llm\<close> and the
  key is set and not empty; otherwise \<open>llm\<close> keeps its \<open>None\<close>.
\<close>

definition load_llm :: "collaborators \<Rightarrow> component option result" where
  "load_llm env =
     (case GOOGLE_API_KEY env of
        None \<Rightarrow> Returned None
      | Some key \<Rightarrow>
          if has_get_google_llm env \<and> key \<noteq> [] then get_google_llm env key
          else Returned None)"

definition step_errors :: "collaborators \<Rightarrow> pyexc option list" where
  "step_errors env =
     (let emb = value_of (get_huggingface_embeddings env);
          client = value_of (connect_to_weaviate env);
          l = value_of (load_llm env);
          rr = value_of (get_reranker_compressor env);
          rt = object_of (AdvancedLawRetriever env client l rr emb)
      in [null_check ''Failed to load embedding model.'' (get_huggingface_embeddings env),
          null_check ''Failed to connect to Weaviate.'' (connect_to_weaviate env),
          null_check ''Failed to load LLM. Please set GOOGLE_API_KEY.'' (load_llm env),
          null_check ''Failed to load reranker.'' (get_reranker_compressor env),
          throws (AdvancedLawRetriever env client l rr emb),
          throws (create_qa_chain env l rt l),
          throws (compose_preprocessing_chain env l)])"

fun first_error :: "pyexc option list \<Rightarrow> pyexc option" where
  "first_error [] = None"
| "first_error (Some e # es) = Some e"
| "first_error (None # es) = first_error es"

text \<open>
  A startup in which every call succeeds, except that \<open>create_qa_chain\<close> returns
  \<open>None\<close>.
\<close>

definition sample_env :: collaborators where
  "sample_env =
     \<lparr>get_huggingface_embeddings = Returned (Some (Component ''embeddings'')),
      connect_to_weaviate = Returned (Some (Component ''weaviate'')),
      GOOGLE_API_KEY = Some ''key'',
      has_get_google_llm = True,
      get_google_llm = (\<lambda>k. Returned (Some (Component ''llm''))),
      get_reranker_compressor = Returned (Some (Component ''reranker'')),
      AdvancedLawRetriever = (\<lambda>c l r e. Returned (Component ''retriever'')),
      create_qa_chain = (\<lambda>l r p. Returned None),
      compose_preprocessing_chain = (\<lambda>l. Returned (\<lambda>x. Returned (PDict [])))\<rparr>"

section \<open>The Response Assembler\<close>

lemma format_loop_docs:
  "format_loop (map (\<lambda>d. PDoc (fst d) (snd d)) docs) acc =
     Returned (acc @ map (\<lambda>d. PDict
        [(''source'', (case map_of (snd d) ''source'' of
                         None \<Rightarrow> PStr ''[No source]'' | Some v \<Rightarrow> v)),
         (''preview'', PStr (if length (fst d) > 200 then take 200 (fst d) @ ''...''
                             else fst d))]) docs)"
  by (induction docs arbitrary: acc) (simp_all add: Let_def)

lemma format_loop_length:
  "format_loop docs acc = Returned out \<Longrightarrow> length out = length acc + length docs"
  by (induction docs arbitrary: acc) (auto split: result.splits)

lemma format_never_empty_list: "format_sources_optimized v \<noteq> Returned (Some [])"
proof
  assume a: "format_sources_optimized v = Returned (Some [])"
  then have t: "truthy v"
    by (auto simp: format_sources_optimized_def split: if_splits)
  from a t obtain docs where d: "py_iter v = Returned docs"
    and l: "format_loop docs [] = Returned []"
    by (auto simp: format_sources_optimized_def split: if_splits result.splits)
  from l have "docs = []" using format_loop_length by fastforce
  with d t show False by (cases v) auto
qed

lemma format_sources_docs:
  "format_sources_optimized (PList (map (\<lambda>d. PDoc (fst d) (snd d)) docs)) =
     Returned (if docs = [] then None else Some (map source_preview docs))"
  by (simp add: format_sources_optimized_def format_loop_docs source_preview_def)

text \<open>
  C3. For a non-empty sequence of retrieved documents, \<open>format_sources_optimized\<close>
  returns one dictionary for each document, in the order of the input. Its
  \<open>"preview"\<close> is the content itself when the content has at most 200 characters, and
  the first 200 characters followed by the marker \<open>...\<close> when it has more; its
  \<open>"source"\<close> is the value the metadata has for the key \<open>"source"\<close>, or the string
  \<open>[No source]\<close> when the metadata has no such key.
\<close>

theorem format_previews:
  assumes "docs \<noteq> []"
  shows "\<exists>out. format_sources_optimized (PList (map (\<lambda>d. PDoc (fst d) (snd d)) docs))
               = Returned (Some out)
           \<and> length out = length docs
           \<and> (\<forall>i < length docs.
                 out ! i = PDict
                   [(''source'', (case map_of (snd (docs ! i)) ''source'' of
                                    None \<Rightarrow> PStr ''[No source]'' | Some v \<Rightarrow> v)),
                    (''preview'', PStr (if length (fst (docs ! i)) > 200
                                        then take 200 (fst (docs ! i)) @ ''...''
                                        else fst (docs ! i)))])"
  using assms by (simp add: format_sources_optimized_def format_loop_docs)

text \<open>
  Two documents: a short one with a source, and one of 201 characters without a
  source, which is cut to 200 characters and marked.
\<close>

theorem format_previews_witness:
  "[(''abc'', [(''source'', PStr ''doc1'')]), (replicate 201 CHR ''a'', [])] \<noteq> []
   \<and> (\<exists>out. format_sources_optimized
               (PList [PDoc ''abc'' [(''source'', PStr ''doc1'')],
                       PDoc (replicate 201 CHR ''a'') []])
               = Returned (Some out)
           \<and> out = [PDict [(''source'', PStr ''doc1''), (''preview'', PStr ''abc'')],
                     PDict [(''source'', PStr ''[No source]''),
                            (''preview'', PStr (replicate 200 CHR ''a'' @ ''...''))]])"
  using format_previews
          [of "[(''abc'', [(''source'', PStr ''doc1'')]), (replicate 201 CHR ''a'', [])]"]
  apply clarsimp
  apply (rule nth_equalityI)
   apply simp
  apply (simp add: less_Suc_eq)
  apply auto
  done

text \<open>
  C4. For an absent input (\<open>None\<close>) and for an empty list,
  \<open>format_sources_optimized\<close> returns \<open>None\<close>; and whatever the input is, it never
  returns an empty list.
\<close>

theorem format_absent_or_empty:
  "format_sources_optimized PNone = Returned None
   \<and> format_sources_optimized (PList []) = Returned None
   \<and> (\<forall>v. format_sources_optimized v \<noteq> Returned (Some []))"
proof (intro conjI allI)
  show "format_sources_optimized PNone = Returned None"
    by (simp add: format_sources_optimized_def)
  show "format_sources_optimized (PList []) = Returned None"
    by (simp add: format_sources_optimized_def)
  show "format_sources_optimized v \<noteq> Returned (Some [])" for v
    by (rule format_never_empty_list)
qed

section \<open>The preprocessing task\<close>

text \<open>
  C10. \<open>run_preprocessing\<close> never raises: it returns what the preprocessing chain
  returns, and the fallback dictionary with the classification \<open>unknown\<close> and the
  original question when the chain raises. So the outcome that \<open>rag_query\<close> gathers
  for this task is never an exception, and the branch of the handler for that case is
  never taken.
\<close>

theorem run_preprocessing_total:
  "(\<forall>v. invoke (preprocessing_chain g) (chain_input q h) = Returned v
          \<longrightarrow> run_preprocessing g q h = Returned v)
   \<and> (\<forall>e. invoke (preprocessing_chain g) (chain_input q h) = Raised e
          \<longrightarrow> run_preprocessing g q h =
                Returned (PDict [(''classification'', PStr ''unknown''),
                                 (''rewritten_question'', PStr q)]))
   \<and> (\<exists>v. run_preprocessing g q h = Returned v)
   \<and> (\<forall>e. run_preprocessing g q h \<noteq> Raised e)"
  by (simp add: run_preprocessing_def split: result.splits)

text \<open>A chain that raises, and a chain that returns a list.\<close>

theorem run_preprocessing_total_witness:
  "invoke (preprocessing_chain
             (initial_globals\<lparr>preprocessing_chain := Some (\<lambda>x. Raised (Exc ''timeout''))\<rparr>))
          (chain_input ''q'' []) = Raised (Exc ''timeout'')
   \<and> run_preprocessing
         (initial_globals\<lparr>preprocessing_chain := Some (\<lambda>x. Raised (Exc ''timeout''))\<rparr>)
         ''q'' [] =
       Returned (PDict [(''classification'', PStr ''unknown''),
                        (''rewritten_question'', PStr ''q'')])
   \<and> invoke (preprocessing_chain
             (initial_globals\<lparr>preprocessing_chain := Some (\<lambda>x. Returned (PList []))\<rparr>))
          (chain_input ''q'' []) = Returned (PList [])
   \<and> run_preprocessing
         (initial_globals\<lparr>preprocessing_chain := Some (\<lambda>x. Returned (PList []))\<rparr>)
         ''q'' [] = Returned (PList [])"
  using run_preprocessing_total
          [of "initial_globals\<lparr>preprocessing_chain := Some (\<lambda>x. Raised (Exc ''timeout''))\<rparr>"
              "''q''" "[]"]
        run_preprocessing_total
          [of "initial_globals\<lparr>preprocessing_chain := Some (\<lambda>x. Returned (PList []))\<rparr>"
              "''q''" "[]"]
  by (simp add: invoke_def)

section \<open>The query handler\<close>

subsection \<open>The handler, step by step\<close>

lemma rag_query_not_ready:
  "Option.is_none (qa_chain g) \<or> Option.is_none (preprocessing_chain g) \<Longrightarrow>
     rag_query render g request =
       (Inl (HTTPException 500 (Text ''RAG pipeline not initialized.'')), [])"
  by (simp add: rag_query_def)

lemma rag_query_ready:
  assumes "qa_chain g = Some qa" "preprocessing_chain g = Some pre"
  shows "rag_query render g request =
     ((case rag_query_body render (question request)
              (run_preprocessing g (question request) (history_of request))
              (run_rag_pipeline g (question request) (history_of request)) of
         Inl (HTTPFailure h) \<Rightarrow> Inl h
       | Inl (OtherFailure e) \<Rightarrow>
           Inl (HTTPException 500 (FText ''Error during RAG pipeline: '' e))
       | Inr response \<Rightarrow> Inr response),
      submitted_tasks request)"
  using assms by (simp add: rag_query_def Let_def submitted_tasks_def)

lemma rag_query_Inr:
  assumes "rag_query render g request = (Inr response, ts)"
  shows "rag_query_body render (question request)
           (run_preprocessing g (question request) (history_of request))
           (run_rag_pipeline g (question request) (history_of request)) = Inr response
         \<and> ts = submitted_tasks request"
  using assms
  by (auto simp: rag_query_def Let_def submitted_tasks_def
           split: if_splits sum.splits failure.splits)

lemma init_Returned:
  "RAGQueryResponse_init c w a s = Returned response \<Longrightarrow>
     c = PStr (classification response) \<and> w = PStr (rewritten_question response)
     \<and> a = PStr (answer response) \<and> s = sources response"
  by (auto simp: RAGQueryResponse_init_def split: pyval.splits)

lemma body_Inr:
  assumes "rag_query_body render q p r = Inr response"
  shows "\<exists>v. r = Returned v
           \<and> resolve_preprocessing q p =
               Returned (PStr (classification response), PStr (rewritten_question response))
           \<and> fst (extract_answer render v) = PStr (answer response)
           \<and> format_sources_optimized (snd (extract_answer render v)) =
               Returned (sources response)"
  using assms
  by (auto simp: rag_query_body_def split: result.splits prod.splits dest!: init_Returned)

lemma body_answer_failure:
  "\<exists>d. (case rag_query_body render q p (Raised e) of
          Inl (HTTPFailure h) \<Rightarrow> Inl h
        | Inl (OtherFailure x) \<Rightarrow>
            Inl (HTTPException 500 (FText ''Error during RAG pipeline: '' x))
        | Inr response \<Rightarrow> Inr response) = Inl (HTTPException 500 d)"
  by (auto simp: rag_query_body_def split: result.splits prod.splits)

lemma resolve_dict:
  "\<exists>c w. resolve_preprocessing q (Returned (PDict kvs)) = Returned (c, w)"
  by (simp add: resolve_preprocessing_def)

lemma extract_not_dict:
  "\<not> is_dict v \<Longrightarrow> extract_answer render v = (PStr (py_str render v), PNone)"
  by (cases v) (simp_all add: extract_answer_def)

lemma body_after_fallback:
  assumes "resolve_preprocessing q p = Returned (PStr c, PStr w)"
    and "extract_answer render v = (PStr a, x)"
    and "format_sources_optimized x = Returned s"
  shows "rag_query_body render q p (Returned v) =
           Inr \<lparr>classification = c, rewritten_question = w, answer = a, sources = s\<rparr>"
  using assms by (simp add: rag_query_body_def RAGQueryResponse_init_def)

lemma body_raised_is_fallback:
  "rag_query_body render q (Raised e) r =
     rag_query_body render q
       (Returned (PDict [(''classification'', PStr ''unknown''),
                         (''rewritten_question'', PStr q)])) r"
  by (simp add: rag_query_body_def resolve_preprocessing_def)

subsection \<open>Failure of the preprocessing\<close>

text \<open>
  C1, as stated, fails: a result of the answer chain is not always one a response can
  be built from. When the preprocessing chain raises and the answer chain returns a
  dictionary whose \<open>"answer"\<close> is \<open>None\<close>, the field \<open>answer: str\<close> of the response
  rejects it and the request ends with status 500.
\<close>

theorem preprocessing_failure_counterexample:
  "invoke (preprocessing_chain
     (initial_globals\<lparr>qa_chain := Some (\<lambda>x. Returned (PDict [(''answer'', PNone)])),
                      preprocessing_chain := Some (\<lambda>x. Raised (Exc ''timeout''))\<rparr>))
     (chain_input ''limit?'' []) = Raised (Exc ''timeout'')
   \<and> run_preprocessing
     (initial_globals\<lparr>qa_chain := Some (\<lambda>x. Returned (PDict [(''answer'', PNone)])),
                      preprocessing_chain := Some (\<lambda>x. Raised (Exc ''timeout''))\<rparr>)
     ''limit?'' [] =
     Returned (PDict [(''classification'', PStr ''unknown''),
                      (''rewritten_question'', PStr ''limit?'')])
   \<and> run_rag_pipeline
     (initial_globals\<lparr>qa_chain := Some (\<lambda>x. Returned (PDict [(''answer'', PNone)])),
                      preprocessing_chain := Some (\<lambda>x. Raised (Exc ''timeout''))\<rparr>)
     ''limit?'' [] = Returned (PDict [(''answer'', PNone)])
   \<and> fst (rag_query (\<lambda>v. ''text'')
        (initial_globals\<lparr>qa_chain := Some (\<lambda>x. Returned (PDict [(''answer'', PNone)])),
                         preprocessing_chain := Some (\<lambda>x. Raised (Exc ''timeout''))\<rparr>)
        \<lparr>question = ''limit?'', chat_history = None\<rparr>) =
      Inl (HTTPException 500
             (FText ''Error during RAG pipeline: '' (ValidationError [''answer''])))"
  by (simp add: rag_query_def run_rag_pipeline_def run_preprocessing_def invoke_def
        history_of_def rag_query_body_def resolve_preprocessing_def Let_def
        extract_answer_def format_sources_optimized_def RAGQueryResponse_init_def
        rejected_def)

text \<open>
  C1, amended. When the preprocessing chain raises and the answer chain returns a
  value that is not a dictionary, or a dictionary whose \<open>"answer"\<close> is a string or
  missing and whose \<open>"context"\<close> is a list of documents, \<open>None\<close> or missing, then
  \<open>rag_query\<close> returns a response, not an error. Its classification is \<open>unknown\<close>
  and its rewritten question is the question of the request; its answer is the value
  itself when that is a string and the text of the value when it is anything else but
  a dictionary, and for a dictionary the \<open>"answer"\<close>, or the text of the dictionary
  when it has none; its sources are the previews of the documents, and \<open>None\<close> when
  there are no documents. The exception of the preprocessing appears nowhere in the
  result. The handler's own branch, for a preprocessing task whose outcome is an
  exception, does what it does for the fallback dictionary.
\<close>

theorem preprocessing_failure_masked:
  assumes "qa_chain g = Some qa" and "preprocessing_chain g = Some pre"
    and "pre (chain_input (question request) (history_of request)) = Raised e"
    and "qa (chain_input (question request) (history_of request)) = Returned v"
  shows "(\<forall>s. v = PStr s \<longrightarrow>
            rag_query render g request =
              (Inr \<lparr>classification = ''unknown'', rewritten_question = question request,
                    answer = s, sources = None\<rparr>,
               submitted_tasks request))
         \<and> (\<not> is_dict v \<and> \<not> is_str v \<longrightarrow>
            rag_query render g request =
              (Inr \<lparr>classification = ''unknown'', rewritten_question = question request,
                    answer = render v, sources = None\<rparr>,
               submitted_tasks request))
         \<and> (\<forall>kvs a docs.
              v = PDict kvs
              \<and> (map_of kvs ''answer'' = Some (PStr a)
                   \<or> map_of kvs ''answer'' = None \<and> a = render v)
              \<and> (map_of kvs ''context'' = Some (PList (map (\<lambda>d. PDoc (fst d) (snd d)) docs))
                   \<or> (map_of kvs ''context'' = None \<or> map_of kvs ''context'' = Some PNone)
                      \<and> docs = [])
              \<longrightarrow>
            rag_query render g request =
              (Inr \<lparr>classification = ''unknown'', rewritten_question = question request,
                    answer = a,
                    sources = (if docs = [] then None else Some (map source_preview docs))\<rparr>,
               submitted_tasks request))
         \<and> (\<forall>r. rag_query_body render (question request) (Raised e) r =
                  rag_query_body render (question request)
                    (Returned (PDict [(''classification'', PStr ''unknown''),
                                      (''rewritten_question'', PStr (question request))])) r)"
proof (intro conjI allI impI)
  have p: "run_preprocessing g (question request) (history_of request) =
      Returned (PDict [(''classification'', PStr ''unknown''),
                       (''rewritten_question'', PStr (question request))])"
    using assms(2,3) by (simp add: run_preprocessing_def invoke_def)
  have r: "run_rag_pipeline g (question request) (history_of request) = Returned v"
    using assms(1,4) by (simp add: run_rag_pipeline_def invoke_def)
  have f: "resolve_preprocessing (question request)
          (run_preprocessing g (question request) (history_of request)) =
        Returned (PStr ''unknown'', PStr (question request))"
    by (simp add: p resolve_preprocessing_def)
  have n: "format_sources_optimized PNone = Returned None"
    by (simp add: format_sources_optimized_def)
  note ready = rag_query_ready [OF assms(1,2), of render request, unfolded r]
  {
    fix s
    assume "v = PStr s"
    then have "extract_answer render v = (PStr s, PNone)"
      by (simp add: extract_answer_def py_str_def)
    from body_after_fallback [OF f this n]
    show "rag_query render g request =
              (Inr \<lparr>classification = ''unknown'', rewritten_question = question request,
                    answer = s, sources = None\<rparr>,
               submitted_tasks request)"
      by (simp add: ready)
  }
  {
    assume "\<not> is_dict v \<and> \<not> is_str v"
    then have "extract_answer render v = (PStr (render v), PNone)"
      by (cases v) (simp_all add: extract_answer_def py_str_def)
    from body_after_fallback [OF f this n]
    show "rag_query render g request =
              (Inr \<lparr>classification = ''unknown'', rewritten_question = question request,
                    answer = render v, sources = None\<rparr>,
               submitted_tasks request)"
      by (simp add: ready)
  }
  {
    fix kvs a docs
    assume d: "v = PDict kvs
              \<and> (map_of kvs ''answer'' = Some (PStr a)
                   \<or> map_of kvs ''answer'' = None \<and> a = render v)
              \<and> (map_of kvs ''context'' = Some (PList (map (\<lambda>d. PDoc (fst d) (snd d)) docs))
                   \<or> (map_of kvs ''context'' = None \<or> map_of kvs ''context'' = Some PNone)
                      \<and> docs = [])"
    then have x: "fst (extract_answer render v) = PStr a"
      by (auto simp: extract_answer_def py_str_def)
    from d have s: "format_sources_optimized (snd (extract_answer render v)) =
        Returned (if docs = [] then None else Some (map source_preview docs))"
      using format_sources_docs [of "[]"]
      by (auto simp: extract_answer_def format_sources_docs n)
    from x have "extract_answer render v = (PStr a, snd (extract_answer render v))"
      by (metis prod.collapse)
    from body_after_fallback [OF f this s]
    show "rag_query render g request =
              (Inr \<lparr>classification = ''unknown'', rewritten_question = question request,
                    answer = a,
                    sources = (if docs = [] then None else Some (map source_preview docs))\<rparr>,
               submitted_tasks request)"
      by (simp add: ready)
  }
  {
    fix r
    show "rag_query_body render (question request) (Raised e) r =
                  rag_query_body render (question request)
                    (Returned (PDict [(''classification'', PStr ''unknown''),
                                      (''rewritten_question'', PStr (question request))])) r"
      by (rule body_raised_is_fallback)
  }
qed

text \<open>
  The preprocessing chain times out; the answer chain returns an answer and one
  document of 210 characters.
\<close>

theorem preprocessing_failure_masked_witness:
  "rag_query (\<lambda>v. ''text'')
     (initial_globals\<lparr>qa_chain := Some (\<lambda>x. Returned (PDict
                         [(''answer'', PStr ''Fifty.''),
                          (''context'', PList [PDoc (replicate 210 CHR ''a'')
                                                 [(''source'', PStr ''doc1'')]])])),
                      preprocessing_chain := Some (\<lambda>x. Raised (Exc ''timeout''))\<rparr>)
     \<lparr>question = ''limit?'', chat_history = None\<rparr> =
   (Inr \<lparr>classification = ''unknown'', rewritten_question = ''limit?'',
         answer = ''Fifty.'',
         sources = Some [PDict [(''source'', PStr ''doc1''),
                                (''preview'', PStr (replicate 200 CHR ''a'' @ ''...''))]]\<rparr>,
    [Task ''run_preprocessing'' ''limit?'' [], Task ''run_rag_pipeline'' ''limit?'' []])"
proof -
  let ?v = "PDict [(''answer'', PStr ''Fifty.''),
                   (''context'', PList [PDoc (replicate 210 CHR ''a'')
                                          [(''source'', PStr ''doc1'')]])]"
  let ?g = "initial_globals\<lparr>qa_chain := Some (\<lambda>x. Returned ?v),
                      preprocessing_chain := Some (\<lambda>x. Raised (Exc ''timeout''))\<rparr>"
  let ?request = "\<lparr>question = ''limit?'', chat_history = None\<rparr>"
  have "\<forall>kvs a docs.
              ?v = PDict kvs
              \<and> (map_of kvs ''answer'' = Some (PStr a)
                   \<or> map_of kvs ''answer'' = None \<and> a = ''text'')
              \<and> (map_of kvs ''context'' = Some (PList (map (\<lambda>d. PDoc (fst d) (snd d)) docs))
                   \<or> (map_of kvs ''context'' = None \<or> map_of kvs ''context'' = Some PNone)
                      \<and> docs = [])
              \<longrightarrow>
            rag_query (\<lambda>v. ''text'') ?g ?request =
              (Inr \<lparr>classification = ''unknown'', rewritten_question = question ?request,
                    answer = a,
                    sources = (if docs = [] then None else Some (map source_preview docs))\<rparr>,
               submitted_tasks ?request)"
    using preprocessing_failure_masked
      [of ?g "\<lambda>x. Returned ?v" "\<lambda>x. Raised (Exc ''timeout'')" ?request "Exc ''timeout''" ?v
          "\<lambda>v. ''text''"]
    by simp
  from this [rule_format,
      of "[(''answer'', PStr ''Fifty.''),
           (''context'', PList [PDoc (replicate 210 CHR ''a'') [(''source'', PStr ''doc1'')]])]"
         "''Fifty.''" "[(replicate 210 CHR ''a'', [(''source'', PStr ''doc1'')])]"]
  show ?thesis
    by (simp add: submitted_tasks_def history_of_def source_preview_def)
qed

subsection \<open>Failure of the answer generation\<close>

text \<open>
  C2. The claim is what lines 175 and 176 are written to do, and the handler misses it
  in one case: it calls \<open>.get\<close> on the preprocessing result (lines 172 and 173) before
  it looks at the outcome of the answer task, and does not test that the result is a
  dictionary, as line 178 does for the result of the answer chain. When the
  preprocessing chain returns a list and the answer chain raises, the \<open>.get\<close> raises
  first, and the request ends with the handler's general error, which does not carry
  the failure of the answer chain. The same \<open>.get\<close> fails a request whose answer task
  has succeeded.
\<close>

theorem answer_failure_detail_lost:
  "run_rag_pipeline
     (initial_globals\<lparr>qa_chain := Some (\<lambda>x. Raised (Exc ''boom'')),
                      preprocessing_chain := Some (\<lambda>x. Returned (PList []))\<rparr>)
     ''q'' [] = Raised (Exc ''boom'')
   \<and> fst (rag_query (\<lambda>v. [])
        (initial_globals\<lparr>qa_chain := Some (\<lambda>x. Raised (Exc ''boom'')),
                         preprocessing_chain := Some (\<lambda>x. Returned (PList []))\<rparr>)
        \<lparr>question = ''q'', chat_history = None\<rparr>) =
      Inl (HTTPException 500
             (FText ''Error during RAG pipeline: '' (AttributeError ''list'' ''get'')))
   \<and> fst (rag_query (\<lambda>v. [])
        (initial_globals\<lparr>qa_chain := Some (\<lambda>x. Returned (PStr ''Fifty.'')),
                         preprocessing_chain := Some (\<lambda>x. Returned (PList []))\<rparr>)
        \<lparr>question = ''q'', chat_history = None\<rparr>) =
      Inl (HTTPException 500
             (FText ''Error during RAG pipeline: '' (AttributeError ''list'' ''get'')))"
  by (simp add: rag_query_def run_rag_pipeline_def run_preprocessing_def invoke_def
        history_of_def rag_query_body_def resolve_preprocessing_def Let_def)

text \<open>
  Everywhere else the handler does what lines 175 and 176 say: when the answer chain
  raises, the request ends with status 500 and without a response, and when the
  preprocessing chain raised or returned a dictionary, the detail is
  \<open>RAG pipeline failed: \<close> followed by the exception of the answer chain.
\<close>

lemma answer_failure_raises:
  assumes "qa_chain g = Some qa" and "preprocessing_chain g = Some pre"
    and "qa (chain_input (question request) (history_of request)) = Raised e"
  shows "(\<exists>d. rag_query render g request =
               (Inl (HTTPException 500 d), submitted_tasks request))
         \<and> ((\<forall>v. pre (chain_input (question request) (history_of request)) = Returned v
                  \<longrightarrow> is_dict v)
              \<longrightarrow> rag_query render g request =
                    (Inl (HTTPException 500 (FText ''RAG pipeline failed: '' e)),
                     submitted_tasks request))"
proof
  have r: "run_rag_pipeline g (question request) (history_of request) = Raised e"
    using assms(1,3) by (simp add: run_rag_pipeline_def invoke_def)
  show "\<exists>d. rag_query render g request =
               (Inl (HTTPException 500 d), submitted_tasks request)"
    using body_answer_failure
            [of render "question request"
                "run_preprocessing g (question request) (history_of request)" e]
    by (simp add: rag_query_ready [OF assms(1,2)] r)
  show "(\<forall>v. pre (chain_input (question request) (history_of request)) = Returned v
                  \<longrightarrow> is_dict v)
              \<longrightarrow> rag_query render g request =
                    (Inl (HTTPException 500 (FText ''RAG pipeline failed: '' e)),
                     submitted_tasks request)"
  proof
    assume d: "\<forall>v. pre (chain_input (question request) (history_of request)) = Returned v
                  \<longrightarrow> is_dict v"
    obtain v where p: "run_preprocessing g (question request) (history_of request) = Returned v"
      and "is_dict v"
      using assms(2) d
      by (cases "pre (chain_input (question request) (history_of request))")
         (auto simp: run_preprocessing_def invoke_def)
    then obtain kvs where "v = PDict kvs" by (cases v) auto
    with p resolve_dict [of "question request" kvs] obtain c w where
      "resolve_preprocessing (question request)
         (run_preprocessing g (question request) (history_of request)) = Returned (c, w)"
      by auto
    then show "rag_query render g request =
                    (Inl (HTTPException 500 (FText ''RAG pipeline failed: '' e)),
                     submitted_tasks request)"
      by (simp add: rag_query_ready [OF assms(1,2)] r rag_query_body_def)
  qed
qed

subsection \<open>The fields of a response\<close>




subsection \<open>An answer that is not a dictionary\<close>

text \<open>
  C8. When the answer chain returns a value that is not a dictionary, every response
  that \<open>rag_query\<close> returns has the text of the whole value as its answer, which is
  the value itself when it is a string, and has no sources. The response is returned
  whenever the classification and the rewritten question are strings.
\<close>

theorem free_text_answer:
  assumes "qa_chain g = Some qa" and "preprocessing_chain g = Some pre"
    and "qa (chain_input (question request) (history_of request)) = Returned v"
    and "\<not> is_dict v"
  shows "(\<forall>response ts. rag_query render g request = (Inr response, ts)
            \<longrightarrow> answer response = py_str render v \<and> sources response = None)
         \<and> (\<forall>c w. resolve_preprocessing (question request)
                     (run_preprocessing g (question request) (history_of request)) =
                   Returned (PStr c, PStr w)
              \<longrightarrow> rag_query render g request =
                    (Inr \<lparr>classification = c, rewritten_question = w,
                          answer = py_str render v, sources = None\<rparr>,
                     submitted_tasks request))
         \<and> (\<forall>s. v = PStr s \<longrightarrow> py_str render v = s)"
proof (intro conjI allI impI)
  have r: "run_rag_pipeline g (question request) (history_of request) = Returned v"
    using assms(1,3) by (simp add: run_rag_pipeline_def invoke_def)
  have x: "extract_answer render v = (PStr (py_str render v), PNone)"
    by (rule extract_not_dict [OF assms(4)])
  have f: "format_sources_optimized PNone = Returned None"
    by (simp add: format_sources_optimized_def)
  {
    fix response ts
    assume "rag_query render g request = (Inr response, ts)"
    from rag_query_Inr [OF this] body_Inr r x f
    show "answer response = py_str render v" by fastforce
  }
  {
    fix response ts
    assume "rag_query render g request = (Inr response, ts)"
    from rag_query_Inr [OF this] body_Inr r x f
    show "sources response = None" by fastforce
  }
  {
    fix c w
    assume "resolve_preprocessing (question request)
                     (run_preprocessing g (question request) (history_of request)) =
                   Returned (PStr c, PStr w)"
    then show "rag_query render g request =
                    (Inr \<lparr>classification = c, rewritten_question = w,
                          answer = py_str render v, sources = None\<rparr>,
                     submitted_tasks request)"
      by (simp add: rag_query_ready [OF assms(1,2)] r rag_query_body_def x f
            RAGQueryResponse_init_def)
  }
  {
    fix s
    assume "v = PStr s"
    then show "py_str render v = s" by (simp add: py_str_def)
  }
qed

text \<open>The answer chain returns a plain string; the preprocessing chain times out.\<close>

theorem free_text_answer_witness:
  "rag_query (\<lambda>v. ''text'')
     (initial_globals\<lparr>qa_chain := Some (\<lambda>x. Returned (PStr ''Fifty.'')),
                      preprocessing_chain := Some (\<lambda>x. Raised (Exc ''timeout''))\<rparr>)
     \<lparr>question = ''limit?'', chat_history = None\<rparr> =
   (Inr \<lparr>classification = ''unknown'', rewritten_question = ''limit?'',
         answer = ''Fifty.'', sources = None\<rparr>,
    [Task ''run_preprocessing'' ''limit?'' [], Task ''run_rag_pipeline'' ''limit?'' []])"
  using free_text_answer
    [of "initial_globals\<lparr>qa_chain := Some (\<lambda>x. Returned (PStr ''Fifty.'')),
                      preprocessing_chain := Some (\<lambda>x. Raised (Exc ''timeout''))\<rparr>"
        "\<lambda>x. Returned (PStr ''Fifty.'')" "\<lambda>x. Raised (Exc ''timeout'')"
        "\<lparr>question = ''limit?'', chat_history = None\<rparr>" "PStr ''Fifty.''" "\<lambda>v. ''text''"]
  by (simp add: submitted_tasks_def history_of_def run_preprocessing_def invoke_def
        resolve_preprocessing_def)

section \<open>Startup\<close>

lemmas startup_defs =
  lifespan_def initial_globals_def Let_def step_errors_def null_check_def
  throws_def value_of_def object_of_def load_llm_def

lemma lifespan_aborted:
  assumes "lifespan env initial_globals = (Raised x, g)"
  shows "preprocessing_chain g = None"
  using assms
  by (auto simp: lifespan_def initial_globals_def Let_def
           split: result.splits if_splits option.splits)

lemma lifespan_completed:
  assumes "lifespan env initial_globals = (Returned u, g)"
  shows "\<not> Option.is_none (embeddings g) \<and> \<not> Option.is_none (weaviate_client g)
      \<and> \<not> Option.is_none (llm g) \<and> \<not> Option.is_none (reranker g)
      \<and> \<not> Option.is_none (retriever g) \<and> \<not> Option.is_none (preprocessing_chain g)"
  using assms
  by (auto simp: lifespan_def initial_globals_def Let_def
           split: result.splits if_splits option.splits)

lemma lifespan_after_llm:
  assumes E: "get_huggingface_embeddings env = Returned (Some emb)"
    and W: "connect_to_weaviate env = Returned (Some cl)"
    and L: "load_llm env = Returned (Some l)"
  shows "fst (lifespan env initial_globals) =
     (case first_error (step_errors env) of None \<Rightarrow> Returned () | Some x \<Rightarrow> Raised x)"
proof -
  from L obtain key where K: "GOOGLE_API_KEY env = Some key" "has_get_google_llm env"
    "key \<noteq> []" "get_google_llm env key = Returned (Some l)"
    by (auto simp: load_llm_def split: option.splits if_splits)
  show ?thesis
  proof (cases "get_reranker_compressor env")
    case (Raised e)
    with E W K show ?thesis by (simp add: startup_defs)
  next
    case R: (Returned rro)
    show ?thesis
    proof (cases rro)
      case None
      with R E W K show ?thesis by (simp add: startup_defs)
    next
      case (Some rr)
      show ?thesis
      proof (cases "AdvancedLawRetriever env (Some cl) (Some l) (Some rr) (Some emb)")
        case (Raised e)
        with Some R E W K show ?thesis by (simp add: startup_defs)
      next
        case T: (Returned rt)
        show ?thesis
        proof (cases "create_qa_chain env (Some l) (Some rt) (Some l)")
          case (Raised e)
          with T Some R E W K show ?thesis by (simp add: startup_defs)
        next
          case Q: (Returned qa)
          show ?thesis
          proof (cases "compose_preprocessing_chain env (Some l)")
            case (Raised e)
            with Q T Some R E W K show ?thesis by (simp add: startup_defs)
          next
            case (Returned pc)
            with Q T Some R E W K show ?thesis by (simp add: startup_defs)
          qed
        qed
      qed
    qed
  qed
qed

lemma lifespan_first_error:
  "fst (lifespan env initial_globals) =
     (case first_error (step_errors env) of None \<Rightarrow> Returned () | Some x \<Rightarrow> Raised x)"
proof (cases "get_huggingface_embeddings env")
  case (Raised e)
  then show ?thesis by (simp add: startup_defs)
next
  case E: (Returned embo)
  show ?thesis
  proof (cases embo)
    case None
    with E show ?thesis by (simp add: startup_defs)
  next
    case (Some emb)
    note E = E [unfolded Some]
    show ?thesis
    proof (cases "connect_to_weaviate env")
      case (Raised e)
      with E show ?thesis by (simp add: startup_defs)
    next
      case W: (Returned clo)
      show ?thesis
      proof (cases clo)
        case None
        with W E show ?thesis by (simp add: startup_defs)
      next
        case (Some cl)
        note W = W [unfolded Some]
        show ?thesis
        proof (cases "load_llm env")
          case (Raised e)
          with E W show ?thesis
            by (auto simp: startup_defs split: option.splits if_splits)
        next
          case L: (Returned lo)
          show ?thesis
          proof (cases lo)
            case None
            with L E W show ?thesis
              by (auto simp: startup_defs split: option.splits if_splits)
          next
            case (Some l)
            with L have "load_llm env = Returned (Some l)" by simp
            from lifespan_after_llm [OF E W this] show ?thesis .
          qed
        qed
      qed
    qed
  qed
qed

text \<open>
  C5, as stated, fails: only the first four steps test what they got. When
  \<open>create_qa_chain\<close> returns \<open>None\<close> and every other step succeeds, the startup
  reaches its \<open>yield\<close> and the application serves with \<open>qa_chain\<close> still \<open>None\<close>.
  And an exception that a step raises leaves \<open>lifespan\<close> as it is: the first step
  and the fourth, raising the same exception, end the startup with the same error.
\<close>

theorem startup_counterexample:
  "create_qa_chain sample_env (Some (Component ''llm'')) (Some (Component ''retriever''))
     (Some (Component ''llm'')) = Returned None
   \<and> fst (lifespan sample_env initial_globals) = Returned ()
   \<and> Option.is_none (qa_chain (snd (lifespan sample_env initial_globals)))
   \<and> \<not> fully_initialized (snd (lifespan sample_env initial_globals))
   \<and> fst (lifespan (sample_env\<lparr>get_huggingface_embeddings := Raised (Exc ''down'')\<rparr>)
            initial_globals) = Raised (Exc ''down'')
   \<and> fst (lifespan (sample_env\<lparr>get_reranker_compressor := Raised (Exc ''down'')\<rparr>)
            initial_globals) = Raised (Exc ''down'')"
  by (simp add: lifespan_def sample_env_def initial_globals_def Let_def
        fully_initialized_def)

text \<open>
  C5, amended. The startup ends at the first step that fails, with the error of that
  step: a \<open>RuntimeError\<close> whose message names the step when the embedding model, the
  database connection, the language model or the reranker comes back empty, and the
  exception itself when any of the seven steps raises. When the startup ends with an
  error the application does not serve, and the preprocessing chain is still \<open>None\<close>;
  when it reaches the \<open>yield\<close>, every component other than the answer chain is there.
\<close>

theorem startup_fail_fast:
  "fst (lifespan env initial_globals) =
     (case first_error (step_errors env) of None \<Rightarrow> Returned () | Some x \<Rightarrow> Raised x)
   \<and> (\<forall>x. fst (lifespan env initial_globals) = Raised x
          \<longrightarrow> Option.is_none (preprocessing_chain (snd (lifespan env initial_globals))))
   \<and> (fst (lifespan env initial_globals) = Returned ()
        \<longrightarrow> \<not> Option.is_none (embeddings (snd (lifespan env initial_globals)))
          \<and> \<not> Option.is_none (weaviate_client (snd (lifespan env initial_globals)))
          \<and> \<not> Option.is_none (llm (snd (lifespan env initial_globals)))
          \<and> \<not> Option.is_none (reranker (snd (lifespan env initial_globals)))
          \<and> \<not> Option.is_none (retriever (snd (lifespan env initial_globals)))
          \<and> \<not> Option.is_none (preprocessing_chain (snd (lifespan env initial_globals))))"
proof (intro conjI allI impI)
  show "fst (lifespan env initial_globals) =
     (case first_error (step_errors env) of None \<Rightarrow> Returned () | Some x \<Rightarrow> Raised x)"
    by (rule lifespan_first_error)
next
  fix x
  assume "fst (lifespan env initial_globals) = Raised x"
  then have "lifespan env initial_globals = (Raised x, snd (lifespan env initial_globals))"
    by (metis prod.collapse)
  from lifespan_aborted [OF this]
  show "Option.is_none (preprocessing_chain (snd (lifespan env initial_globals)))"
    by simp
next
  assume "fst (lifespan env initial_globals) = Returned ()"
  then have l: "lifespan env initial_globals = (Returned (), snd (lifespan env initial_globals))"
    by (metis prod.collapse)
  from lifespan_completed [OF l]
  show "\<not> Option.is_none (embeddings (snd (lifespan env initial_globals)))"
    and "\<not> Option.is_none (weaviate_client (snd (lifespan env initial_globals)))"
    and "\<not> Option.is_none (llm (snd (lifespan env initial_globals)))"
    and "\<not> Option.is_none (reranker (snd (lifespan env initial_globals)))"
    and "\<not> Option.is_none (retriever (snd (lifespan env initial_globals)))"
    and "\<not> Option.is_none (preprocessing_chain (snd (lifespan env initial_globals)))"
    by simp_all
qed

text \<open>
  The database does not answer: the startup ends at the second step. And the reranker
  raises: the startup ends at the fourth step with that exception.
\<close>

theorem startup_fail_fast_witness:
  "fst (lifespan (sample_env\<lparr>connect_to_weaviate := Returned None\<rparr>) initial_globals) =
     Raised (RuntimeError ''Failed to connect to Weaviate.'')
   \<and> Option.is_none (preprocessing_chain
        (snd (lifespan (sample_env\<lparr>connect_to_weaviate := Returned None\<rparr>) initial_globals)))
   \<and> fst (lifespan (sample_env\<lparr>get_reranker_compressor := Raised (Exc ''no model'')\<rparr>)
            initial_globals) = Raised (Exc ''no model'')"
  using startup_fail_fast [of "sample_env\<lparr>connect_to_weaviate := Returned None\<rparr>"]
        startup_fail_fast [of "sample_env\<lparr>get_reranker_compressor := Raised (Exc ''no model'')\<rparr>"]
  by (simp add: step_errors_def null_check_def throws_def value_of_def object_of_def
        load_llm_def sample_env_def Let_def)

section \<open>A query before the registry is complete\<close>

text \<open>
  C7. A query that finds no answer chain or no preprocessing chain is refused at once:
  \<open>rag_query\<close> raises the \<open>HTTPException\<close> with status 500 and the detail
  \<open>RAG pipeline not initialized.\<close>, and hands no task to the worker pool. In the
  state in which the module is loaded, and in every state a startup leaves behind, this
  is the case whenever any of the seven components of the registry is missing.
\<close>

theorem query_before_initialization:
  "(Option.is_none (qa_chain g) \<or> Option.is_none (preprocessing_chain g)
      \<longrightarrow> rag_query render g request =
            (Inl (HTTPException 500 (Text ''RAG pipeline not initialized.'')), []))
   \<and> ((g = initial_globals \<or> g = snd (lifespan env initial_globals))
        \<and> \<not> fully_initialized g
      \<longrightarrow> rag_query render g request =
            (Inl (HTTPException 500 (Text ''RAG pipeline not initialized.'')), []))"
proof (intro conjI impI)
  assume "Option.is_none (qa_chain g) \<or> Option.is_none (preprocessing_chain g)"
  then show "rag_query render g request =
            (Inl (HTTPException 500 (Text ''RAG pipeline not initialized.'')), [])"
    by (rule rag_query_not_ready)
next
  assume a: "(g = initial_globals \<or> g = snd (lifespan env initial_globals))
               \<and> \<not> fully_initialized g"
  have "Option.is_none (qa_chain g) \<or> Option.is_none (preprocessing_chain g)"
  proof (cases "g = initial_globals")
    case True
    then show ?thesis by (simp add: initial_globals_def)
  next
    case False
    with a have l: "lifespan env initial_globals = (fst (lifespan env initial_globals), g)"
      by simp
    show ?thesis
    proof (cases "fst (lifespan env initial_globals)")
      case (Returned u)
      with l lifespan_completed [of env u g] a show ?thesis
        by (simp add: fully_initialized_def)
    next
      case (Raised x)
      with l lifespan_aborted [of env x g] show ?thesis by simp
    qed
  qed
  then show "rag_query render g request =
            (Inl (HTTPException 500 (Text ''RAG pipeline not initialized.'')), [])"
    by (rule rag_query_not_ready)
qed

text \<open>
  Before the startup; and after the startup in which \<open>create_qa_chain\<close> returned
  \<open>None\<close>.
\<close>

theorem query_before_initialization_witness:
  "\<not> fully_initialized initial_globals
   \<and> rag_query (\<lambda>v. []) initial_globals \<lparr>question = ''q'', chat_history = None\<rparr> =
       (Inl (HTTPException 500 (Text ''RAG pipeline not initialized.'')), [])
   \<and> \<not> fully_initialized (snd (lifespan sample_env initial_globals))
   \<and> rag_query (\<lambda>v. []) (snd (lifespan sample_env initial_globals))
         \<lparr>question = ''q'', chat_history = None\<rparr> =
       (Inl (HTTPException 500 (Text ''RAG pipeline not initialized.'')), [])"
proof -
  have a: "\<not> fully_initialized initial_globals"
    by (simp add: fully_initialized_def initial_globals_def)
  have b: "\<not> fully_initialized (snd (lifespan sample_env initial_globals))"
    by (simp add: lifespan_def sample_env_def initial_globals_def Let_def
          fully_initialized_def)
  from query_before_initialization [of initial_globals "\<lambda>v. []" _ sample_env]
       query_before_initialization
         [of "snd (lifespan sample_env initial_globals)" "\<lambda>v. []" _ sample_env]
       a b
  show ?thesis by simp
qed

end
